theory Spec2Isabelle
  imports Main
begin

section \<open>Data model\<close>

text \<open>
  The persisted shape, as the Prisma calls of \<^verbatim>\<open>pages/api/index.ts\<close> use it: a table of
  carts keyed by \<^verbatim>\<open>id\<close> and a table of cart items keyed by the pair \<^verbatim>\<open>id_cartId\<close>.
  Tables are lists in row order, because \<^verbatim>\<open>reduce\<close> and \<^verbatim>\<open>map\<close> walk the rows in the
  order the store returns them. \<^verbatim>\<open>String?\<close> columns are \<open>string option\<close>. An \<^verbatim>\<open>Int\<close>
  of Prisma or GraphQL is a 32-bit signed integer: the columns hold an \<open>int\<close>, and the
  writes and the fields that can leave the range check it (see \<open>int32\<close> below).
\<close>

record CartItem =
  item_id :: string
  item_cartId :: string
  item_name :: string
  item_description :: "string option"
  item_image :: "string option"
  item_price :: int
  item_quantity :: int

record Store =
  carts :: "string list"
  cartItems :: "CartItem list"

text \<open>A cart as a query returns it, with its \<^verbatim>\<open>items\<close> relation loaded.\<close>

record Cart =
  cart_id :: string
  cart_items :: "CartItem list"

datatype error =
  RecordNotFound
  | UniqueConstraintViolation
  | ValueOutOfRange
  | GraphQLYogaError string
  | GraphQLError string
  | TypeError
  | StripeError string

text \<open>
  A GraphQL input field on the wire: left out, given as \<^verbatim>\<open>null\<close>, or given a value.
\<close>

datatype 'a arg = Absent | Null | Given 'a

record AddToCartInput =
  in_cartId :: string
  in_id :: string
  in_name :: string
  in_description :: "string option"
  in_image :: "string option"
  in_price :: int
  in_quantity :: "int arg"

text \<open>
  \<^verbatim>\<open>RemoveFromCartInput\<close>, \<^verbatim>\<open>IncreaseCartItemInput\<close> and \<^verbatim>\<open>DecreaseCartItemInput\<close> have
  the same two required fields.
\<close>

record RemoveFromCartInput =
  ref_cartId :: string
  ref_id :: string

type_synonym IncreaseCartItemInput = RemoveFromCartInput
type_synonym DecreaseCartItemInput = RemoveFromCartInput

section \<open>JavaScript operators\<close>

text \<open>\<^verbatim>\<open>a ?? b\<close>: \<^verbatim>\<open>b\<close> only when \<^verbatim>\<open>a\<close> is \<^verbatim>\<open>null\<close> or \<^verbatim>\<open>undefined\<close>.\<close>

definition nullish :: "'a option \<Rightarrow> 'a \<Rightarrow> 'a" where
  "nullish a b = (case a of None \<Rightarrow> b | Some v \<Rightarrow> v)"

text \<open>
  \<^verbatim>\<open>a || b\<close> on a number that may be \<^verbatim>\<open>null\<close> or \<^verbatim>\<open>undefined\<close>: \<^verbatim>\<open>b\<close> when \<^verbatim>\<open>a\<close> is
  falsy, and the number 0 is falsy.
\<close>

definition or_number :: "int option \<Rightarrow> int \<Rightarrow> int" where
  "or_number a b = (case a of None \<Rightarrow> b | Some n \<Rightarrow> if n = 0 then b else n)"

text \<open>Truthiness of a nullable string: \<^verbatim>\<open>null\<close> and the empty string are falsy.\<close>

definition truthy :: "string option \<Rightarrow> bool" where
  "truthy s = (case s of None \<Rightarrow> False | Some v \<Rightarrow> v \<noteq> [])"

section \<open>Numbers\<close>

text \<open>The range of \<^verbatim>\<open>Int\<close>, in GraphQL and in Prisma.\<close>

definition int32 :: "int \<Rightarrow> bool" where
  "int32 n = (- 2147483648 \<le> n \<and> n \<le> 2147483647)"

text \<open>
  A JavaScript number that came out of \<^verbatim>\<open>+\<close> and \<^verbatim>\<open>*\<close> on integers: a double that holds
  an integer, or a value that is not finite (an infinity or \<^verbatim>\<open>NaN\<close>).
\<close>

datatype number = Num int | NonFinite

fun bit_length :: "nat \<Rightarrow> nat" where
  "bit_length n = (if n = 0 then 0 else Suc (bit_length (n div 2)))"

declare bit_length.simps [simp del]

text \<open>
  The double nearest to an integer: an integer of magnitude up to \<open>2 ^ 53\<close> is a double;
  a larger one keeps its 53 leading bits, rounded to nearest with ties to the even
  significand, and overflows to an infinity from \<open>2 ^ 1024\<close> on.
\<close>

definition round_double :: "int \<Rightarrow> number" where
  "round_double n =
     (let a = nat \<bar>n\<bar> in
      if a \<le> 2 ^ 53 then Num n
      else
        (let unit = 2 ^ (bit_length a - 53);
             q = a div unit;
             r = a mod unit;
             m = (if unit < 2 * r \<or> (2 * r = unit \<and> odd q) then q + 1 else q) * unit
         in if 2 ^ 1024 \<le> m then NonFinite
            else Num (if n < 0 then - int m else int m)))"

text \<open>
  \<^verbatim>\<open>a * b\<close> on two integers of the store and \<^verbatim>\<open>a + b\<close> on two numbers. A value that is
  not finite stays so under both.
\<close>

definition times_number :: "int \<Rightarrow> int \<Rightarrow> number" where
  "times_number a b = round_double (a * b)"

definition plus_number :: "number \<Rightarrow> number \<Rightarrow> number" where
  "plus_number x y =
     (case x of
        NonFinite \<Rightarrow> NonFinite
      | Num a \<Rightarrow> (case y of NonFinite \<Rightarrow> NonFinite | Num b \<Rightarrow> round_double (a + b)))"

text \<open>
  A field declared \<^verbatim>\<open>t.int\<close> serializes its number as a GraphQL \<^verbatim>\<open>Int\<close>: the field is an
  error when the number is not a 32-bit integer.
\<close>

definition serialize_Int :: "number \<Rightarrow> error + int" where
  "serialize_Int x =
     (case x of
        NonFinite \<Rightarrow> Inl (GraphQLError ''Int cannot represent non-integer value'')
      | Num n \<Rightarrow>
          if int32 n then Inr n
          else Inl (GraphQLError ''Int cannot represent non 32-bit signed integer value''))"

section \<open>Input coercion\<close>

text \<open>
  What the resolver reads as \<^verbatim>\<open>input.quantity\<close>. The schema builder declares
  \<^verbatim>\<open>quantity: t.int({ defaultValue: 1 })\<close>, so a field that is left out arrives as 1 and an
  explicit \<^verbatim>\<open>null\<close> stays \<^verbatim>\<open>null\<close>. The resolver-map version reads the field as sent.
\<close>

definition defaultValue :: "'a \<Rightarrow> 'a arg \<Rightarrow> 'a option" where
  "defaultValue d a = (case a of Absent \<Rightarrow> Some d | Null \<Rightarrow> None | Given v \<Rightarrow> Some v)"

definition as_sent :: "'a arg \<Rightarrow> 'a option" where
  "as_sent a = (case a of Absent \<Rightarrow> None | Null \<Rightarrow> None | Given v \<Rightarrow> Some v)"

section \<open>The Prisma client\<close>

text \<open>
  The calls the source makes, over the two tables. \<^verbatim>\<open>update\<close> on a cart that does not
  exist throws (Prisma's record-not-found error); \<^verbatim>\<open>upsert\<close> never does. Nested writes
  under \<^verbatim>\<open>items\<close> touch only the rows of the cart the outer \<^verbatim>\<open>where\<close> selected. The
  key \<^verbatim>\<open>id_cartId\<close> is unique: inserting a second row under a key throws. The quantity is
  a 32-bit \<^verbatim>\<open>Int\<close>: an increment that takes a stored quantity out of that range throws. A
  call that throws writes nothing. Referential constraints, which only
  \<^verbatim>\<open>schema.prisma\<close> declares, are not part of the model.
\<close>

definition load_cart :: "Store \<Rightarrow> string \<Rightarrow> Cart" where
  "load_cart st cid =
     \<lparr>cart_id = cid, cart_items = filter (\<lambda>r. item_cartId r = cid) (cartItems st)\<rparr>"

definition cart_findUnique :: "Store \<Rightarrow> string \<Rightarrow> Cart option" where
  "cart_findUnique st cid = (if cid \<in> set (carts st) then Some (load_cart st cid) else None)"

definition cart_upsert ::
  "Store \<Rightarrow> string \<Rightarrow> (Store \<Rightarrow> Store) \<Rightarrow> (Store \<Rightarrow> Store) \<Rightarrow> error + Store \<times> Cart" where
  "cart_upsert st cid create update =
     (let st' = (if cid \<in> set (carts st) then update st
                 else create (st\<lparr>carts := carts st @ [cid]\<rparr>))
      in Inr (st', load_cart st' cid))"

definition cart_update ::
  "Store \<Rightarrow> string \<Rightarrow> (Store \<Rightarrow> Store) \<Rightarrow> error + Store \<times> Cart" where
  "cart_update st cid data =
     (if cid \<in> set (carts st)
      then (let st' = data st in Inr (st', load_cart st' cid))
      else Inl RecordNotFound)"

definition increment :: "int \<Rightarrow> CartItem \<Rightarrow> CartItem" where
  "increment n r = r\<lparr>item_quantity := item_quantity r + n\<rparr>"

definition decrement :: "int \<Rightarrow> CartItem \<Rightarrow> CartItem" where
  "decrement n r = r\<lparr>item_quantity := item_quantity r - n\<rparr>"

text \<open>
  \<^verbatim>\<open>prisma.cart.upsert\<close> whose \<^verbatim>\<open>create\<close> and \<^verbatim>\<open>update\<close> carry nested writes: a nested
  write that throws fails the whole call.
\<close>

definition cart_upsert_nested ::
  "Store \<Rightarrow> string \<Rightarrow> (Store \<Rightarrow> error + Store) \<Rightarrow> (Store \<Rightarrow> error + Store)
     \<Rightarrow> error + Store \<times> Cart" where
  "cart_upsert_nested st cid create update =
     (case (if cid \<in> set (carts st) then update st
            else create (st\<lparr>carts := carts st @ [cid]\<rparr>)) of
        Inl e \<Rightarrow> Inl e
      | Inr st' \<Rightarrow> Inr (st', load_cart st' cid))"

text \<open>
  Inserting a row: the key \<^verbatim>\<open>id_cartId\<close> must be free. This is the nested write
  \<^verbatim>\<open>items: { create }\<close> and the \<^verbatim>\<open>create\<close> branch of both upserts.
\<close>

definition items_create :: "CartItem \<Rightarrow> Store \<Rightarrow> error + Store" where
  "items_create item st =
     (if find (\<lambda>r. item_id r = item_id item \<and> item_cartId r = item_cartId item) (cartItems st)
         = None
      then Inr (st\<lparr>cartItems := cartItems st @ [item]\<rparr>)
      else Inl UniqueConstraintViolation)"

text \<open>
  \<^verbatim>\<open>quantity: { increment: n }\<close> on a row overflows when it takes the stored 32-bit
  quantity out of the 32-bit range.
\<close>

definition out_of_range :: "int \<Rightarrow> CartItem \<Rightarrow> bool" where
  "out_of_range n r = (int32 (item_quantity r) \<and> \<not> int32 (item_quantity r + n))"

text \<open>
  \<^verbatim>\<open>prisma.cartItem.upsert({ create, where: { id_cartId }, update: { quantity: { increment
  } } })\<close>.
\<close>

definition cartItem_upsert ::
  "string \<times> string \<Rightarrow> CartItem \<Rightarrow> int \<Rightarrow> Store \<Rightarrow> error + Store" where
  "cartItem_upsert id_cartId create n st =
     (let hit = (\<lambda>r. item_id r = fst id_cartId \<and> item_cartId r = snd id_cartId)
      in if find hit (cartItems st) = None then items_create create st
         else if find (\<lambda>r. hit r \<and> out_of_range n r) (cartItems st) = None
         then Inr (st\<lparr>cartItems := map (\<lambda>r. if hit r then increment n r else r) (cartItems st)\<rparr>)
         else Inl ValueOutOfRange)"

text \<open>
  The nested write \<^verbatim>\<open>items: { upsert: { create, where: { id_cartId }, update: { quantity:
  { increment } } } }\<close> of cart \<open>cid\<close>.
\<close>

definition items_upsert ::
  "string \<Rightarrow> string \<times> string \<Rightarrow> CartItem \<Rightarrow> int \<Rightarrow> Store \<Rightarrow> error + Store" where
  "items_upsert cid id_cartId create n st =
     (let hit = (\<lambda>r. item_cartId r = cid \<and> item_id r = fst id_cartId
                      \<and> item_cartId r = snd id_cartId)
      in if find hit (cartItems st) = None then items_create create st
         else if find (\<lambda>r. hit r \<and> out_of_range n r) (cartItems st) = None
         then Inr (st\<lparr>cartItems := map (\<lambda>r. if hit r then increment n r else r) (cartItems st)\<rparr>)
         else Inl ValueOutOfRange)"

text \<open>The nested writes \<^verbatim>\<open>items: { deleteMany | updateMany }\<close> of cart \<open>cid\<close>.\<close>

definition items_deleteMany :: "string \<Rightarrow> (CartItem \<Rightarrow> bool) \<Rightarrow> Store \<Rightarrow> Store" where
  "items_deleteMany cid wh st =
     st\<lparr>cartItems := filter (\<lambda>r. \<not> (item_cartId r = cid \<and> wh r)) (cartItems st)\<rparr>"

definition items_updateMany ::
  "string \<Rightarrow> (CartItem \<Rightarrow> bool) \<Rightarrow> (CartItem \<Rightarrow> CartItem) \<Rightarrow> Store \<Rightarrow> Store" where
  "items_updateMany cid wh data st =
     st\<lparr>cartItems := map (\<lambda>r. if item_cartId r = cid \<and> wh r then data r else r) (cartItems st)\<rparr>"

section \<open>Queries and totals\<close>

text \<open>The \<^verbatim>\<open>cart\<close> query of the schema-builder version: an upsert that changes nothing.\<close>

definition cart :: "Store \<Rightarrow> string \<Rightarrow> error + Store \<times> Cart" where
  "cart st ident = cart_upsert st ident (\<lambda>s. s) (\<lambda>s. s)"

text \<open>
  \<^verbatim>\<open>cart.items.reduce((total, item) => total + item.quantity || 1, 0)\<close>. The operator
  \<^verbatim>\<open>+\<close> binds tighter than \<^verbatim>\<open>||\<close>: the callback returns \<^verbatim>\<open>(total + item.quantity) || 1\<close>.
\<close>

definition totalItems :: "Cart \<Rightarrow> int" where
  "totalItems c =
     foldl (\<lambda>total item. or_number (Some (total + item_quantity item)) 1) 0 (cart_items c)"

text \<open>
  \<^verbatim>\<open>cart.items.reduce((acc, item) => acc + item.price * item.quantity, 0) ?? 0\<close>, the number
  behind the \<^verbatim>\<open>Money\<close> object. The arithmetic is JavaScript's, on doubles.
\<close>

definition subTotal :: "Cart \<Rightarrow> number" where
  "subTotal c =
     nullish
       (Some (foldl (\<lambda>acc item. plus_number acc (times_number (item_price item) (item_quantity item)))
          (Num 0) (cart_items c)))
       (Num 0)"

text \<open>\<^verbatim>\<open>amount: t.int({ resolve: (amount) => amount })\<close> of \<^verbatim>\<open>Money\<close>.\<close>

definition Money_amount :: "number \<Rightarrow> error + int" where
  "Money_amount amount = serialize_Int amount"

text \<open>
  The resolver-map version of the two totals. They load the items through
  \<^verbatim>\<open>prisma.cart.findUnique({ where: { id } }).items()\<close>, which is \<^verbatim>\<open>null\<close> for a cart that
  does not exist, and \<^verbatim>\<open>null.reduce\<close> throws. The subtotal is the object the resolver
  returns, with the number it computed; the formatter stands for
  \<^verbatim>\<open>currencyFormatter.format(amount / 100, { code: currencyCode })\<close>.
\<close>

record Money =
  amount :: number
  formatted :: string

definition totalItems_resolvers :: "Store \<Rightarrow> string \<Rightarrow> error + int" where
  "totalItems_resolvers st ident =
     (case cart_findUnique st ident of
        None \<Rightarrow> Inl TypeError
      | Some c \<Rightarrow>
          Inr (foldl (\<lambda>total item. or_number (Some (total + item_quantity item)) 1) 0
                 (cart_items c)))"

definition subTotal_resolvers :: "(number \<Rightarrow> string) \<Rightarrow> Store \<Rightarrow> string \<Rightarrow> error + Money" where
  "subTotal_resolvers format st ident =
     (case cart_findUnique st ident of
        None \<Rightarrow> Inl TypeError
      | Some c \<Rightarrow>
          (let amount =
                 nullish
                   (Some (foldl (\<lambda>acc item.
                            plus_number acc (times_number (item_price item) (item_quantity item)))
                      (Num 0) (cart_items c)))
                   (Num 0)
           in Inr \<lparr>amount = amount, formatted = format amount\<rparr>))"

section \<open>Mutations\<close>

text \<open>
  The schema-builder version of \<^verbatim>\<open>addItem\<close>. The object \<^verbatim>\<open>item\<close> of the source has no
  \<^verbatim>\<open>cartId\<close>: the nested write sets it to the id of the cart it is written under, which
  is \<^verbatim>\<open>input.cartId\<close>.
\<close>

definition addItem :: "Store \<Rightarrow> AddToCartInput \<Rightarrow> error + Store \<times> Cart" where
  "addItem st input =
     (let quantity = defaultValue 1 (in_quantity input);
          item = \<lparr>item_id = in_id input,
                  item_cartId = in_cartId input,
                  item_name = in_name input,
                  item_description = in_description input,
                  item_image = in_image input,
                  item_price = in_price input,
                  item_quantity = nullish quantity 1\<rparr>
      in cart_upsert_nested st (in_cartId input)
           (items_create item)
           (items_upsert (in_cartId input) (in_id input, in_cartId input) item
              (nullish quantity 1)))"

text \<open>
  Modelled from the spec: \<^verbatim>\<open>findOrCreateCart\<close> of \<^verbatim>\<open>lib/cart\<close>, which is not among the
  sources. The spec: "returns the Cart with the given id, creating an empty one if absent.
  Must not raise a not-found condition".
\<close>

definition findOrCreateCart :: "Store \<Rightarrow> string \<Rightarrow> error + Store \<times> Cart" where
  "findOrCreateCart st ident =
     (if ident \<in> set (carts st) then Inr (st, load_cart st ident)
      else (let st' = st\<lparr>carts := carts st @ [ident]\<rparr> in Inr (st', load_cart st' ident)))"

text \<open>The resolver-map version of \<^verbatim>\<open>addItem\<close>.\<close>

definition addItem_resolvers :: "Store \<Rightarrow> AddToCartInput \<Rightarrow> error + Store \<times> Cart" where
  "addItem_resolvers st input =
     (let quantity = as_sent (in_quantity input)
      in case cartItem_upsert (in_id input, in_cartId input)
                \<lparr>item_id = in_id input,
                 item_cartId = in_cartId input,
                 item_name = in_name input,
                 item_description = in_description input,
                 item_image = in_image input,
                 item_price = in_price input,
                 item_quantity = or_number quantity 1\<rparr>
                (or_number quantity 1) st of
           Inl e \<Rightarrow> Inl e
         | Inr st' \<Rightarrow> findOrCreateCart st' (in_cartId input))"

definition removeItem :: "Store \<Rightarrow> RemoveFromCartInput \<Rightarrow> error + Store \<times> Cart" where
  "removeItem st input =
     cart_update st (ref_id input)
       (items_deleteMany (ref_id input) (\<lambda>r. item_id r = ref_id input))"

definition increaseCartItem :: "Store \<Rightarrow> IncreaseCartItemInput \<Rightarrow> error + Store \<times> Cart" where
  "increaseCartItem st input =
     cart_update st (ref_id input)
       (items_updateMany (ref_id input) (\<lambda>r. item_id r = ref_id input) (increment 1))"

definition decreaseCartItem :: "Store \<Rightarrow> DecreaseCartItemInput \<Rightarrow> error + Store \<times> Cart" where
  "decreaseCartItem st input =
     cart_update st (ref_id input)
       (items_updateMany (ref_id input)
          (\<lambda>r. item_id r = ref_id input \<and> 1 \<le> item_quantity r) (decrement 1))"

text \<open>
  A run of \<^verbatim>\<open>decreaseCartItem\<close> requests: each request is served on the store the
  previous one left, and a request that throws leaves the store as it was.
\<close>

definition decreaseCartItem_calls :: "Store \<Rightarrow> DecreaseCartItemInput list \<Rightarrow> Store" where
  "decreaseCartItem_calls st inputs =
     foldl (\<lambda>s input. case decreaseCartItem s input of Inl e \<Rightarrow> s | Inr (s', c) \<Rightarrow> s')
       st inputs"

section \<open>Checkout\<close>

record ProductData =
  pd_name :: string
  pd_description :: "string option"
  pd_images :: "string list"

record PriceData =
  currency :: string
  unit_amount :: int
  product_data :: ProductData

record LineItem =
  quantity :: int
  price_data :: PriceData

record SessionCreateParams =
  success_url :: string
  cancel_url :: string
  line_items :: "LineItem list"
  metadata_cartId :: string
  mode :: string

record Session =
  session_id :: string
  session_url :: "string option"

record CheckoutSession =
  cs_id :: string
  cs_url :: "string option"

definition currencyCode :: string where
  "currencyCode = ''USD''"

text \<open>The callback of \<^verbatim>\<open>cart.items.map\<close> in \<^verbatim>\<open>createCheckoutSession\<close>.\<close>

definition line_item :: "CartItem \<Rightarrow> LineItem" where
  "line_item item =
     \<lparr>quantity = item_quantity item,
      price_data =
        \<lparr>currency = currencyCode,
         unit_amount = item_price item,
         product_data =
           \<lparr>pd_name = item_name item,
            pd_description = (if truthy (item_description item) then item_description item
                              else None),
            pd_images = (if truthy (item_image item) then [the (item_image item)] else [])\<rparr>\<rparr>\<rparr>"

text \<open>
  \<^verbatim>\<open>createCheckoutSession\<close>. The payment gateway \<^verbatim>\<open>stripe.checkout.sessions.create\<close> and
  \<^verbatim>\<open>origin\<close> of \<^verbatim>\<open>lib/client\<close> are parameters. The second component of the result is the
  list of requests sent to the gateway; the mutation writes nothing to the store.
\<close>

definition createCheckoutSession ::
  "(SessionCreateParams \<Rightarrow> error + Session) \<Rightarrow> string \<Rightarrow> Store \<Rightarrow> string
     \<Rightarrow> (error + CheckoutSession) \<times> SessionCreateParams list" where
  "createCheckoutSession stripe_create origin st cartId =
     (case cart_findUnique st cartId of
        None \<Rightarrow> (Inl (GraphQLYogaError ''Invalid cart''), [])
      | Some c \<Rightarrow>
          if cart_items c = [] then (Inl (GraphQLYogaError ''Cart is empty''), [])
          else
            (let params =
                   \<lparr>success_url = origin @ ''/thankyou?session_id={CHECKOUT_SESSION_ID}'',
                    cancel_url = origin @ ''/cart?cancelled=true'',
                    line_items = map line_item (cart_items c),
                    metadata_cartId = cart_id c,
                    mode = ''payment''\<rparr>
             in case stripe_create params of
                  Inl e \<Rightarrow> (Inl e, [params])
                | Inr session \<Rightarrow>
                    (Inr \<lparr>cs_id = session_id session, cs_url = session_url session\<rparr>,
                     [params])))"

section \<open>Store invariant\<close>

text \<open>Every item row belongs to a cart of the cart table.\<close>

definition items_have_carts :: "Store \<Rightarrow> bool" where
  "items_have_carts st = list_all (\<lambda>r. item_cartId r \<in> set (carts st)) (cartItems st)"

section \<open>Auxiliary definitions\<close>

text \<open>
  The relation between a row before and after any number of decrements: only the quantity
  may differ, it never grows, it does not cross zero, and a row at or below zero is
  left alone.
\<close>

definition floor_at_zero :: "CartItem \<Rightarrow> CartItem \<Rightarrow> bool" where
  "floor_at_zero r r' =
     (r' = r\<lparr>item_quantity := item_quantity r'\<rparr>
      \<and> item_quantity r' \<le> item_quantity r
      \<and> (0 \<le> item_quantity r \<longrightarrow> 0 \<le> item_quantity r')
      \<and> (item_quantity r \<le> 0 \<longrightarrow> r' = r))"

text \<open>Sample rows, a sample store and a gateway that always answers, for the examples.\<close>

definition example_item :: "string \<Rightarrow> string \<Rightarrow> int \<Rightarrow> CartItem" where
  "example_item ident cid q =
     \<lparr>item_id = ident, item_cartId = cid, item_name = ''Mug'', item_description = None,
      item_image = None, item_price = 500, item_quantity = q\<rparr>"

definition example_store :: Store where
  "example_store =
     \<lparr>carts = [''c0'', ''c1''],
      cartItems =
        [example_item ''i1'' ''c1'' 2,
         \<lparr>item_id = ''i2'', item_cartId = ''c1'', item_name = ''Pen'',
          item_description = Some ''Blue ink'', item_image = Some ''https://img/pen.png'',
          item_price = 150, item_quantity = 3\<rparr>,
         \<lparr>item_id = ''i3'', item_cartId = ''c1'', item_name = ''Cap'',
          item_description = Some [], item_image = Some [],
          item_price = 900, item_quantity = 1\<rparr>]\<rparr>"

definition example_gateway :: "SessionCreateParams \<Rightarrow> error + Session" where
  "example_gateway params = Inr \<lparr>session_id = ''cs_test_1'', session_url = None\<rparr>"

section \<open>Lemmas on lists and rows\<close>

lemma find_None_filter: "find P xs = None \<Longrightarrow> filter P xs = []"
  by (simp add: find_None_iff filter_empty_conv)

lemma find_None_map_if: "find P xs = None \<Longrightarrow> map (\<lambda>r. if P r then f r else r) xs = xs"
  by (induction xs) (auto split: if_splits)

lemma find_append_hit: "P x \<Longrightarrow> find P (xs @ [x]) \<noteq> None"
  by (auto simp: find_None_iff)

lemma filter_map_if:
  "(\<And>r. P (f r) = P r) \<Longrightarrow>
     filter P (map (\<lambda>r. if P r then f r else r) xs) = map f (filter P xs)"
  by (induction xs) auto

lemma find_map_if_hit:
  "(\<And>r. P (f r) = P r) \<Longrightarrow> find P xs \<noteq> None \<Longrightarrow>
     find P (map (\<lambda>r. if P r then f r else r) xs) \<noteq> None"
  by (auto simp: find_None_iff)

lemma floor_at_zero_refl: "floor_at_zero r r"
  by (simp add: floor_at_zero_def)

lemma floor_at_zero_trans:
  "floor_at_zero r r' \<Longrightarrow> floor_at_zero r' r'' \<Longrightarrow> floor_at_zero r r''"
  unfolding floor_at_zero_def
  by (cases r, cases r', cases r'') auto

lemma floor_at_zero_decrement: "1 \<le> item_quantity r \<Longrightarrow> floor_at_zero r (decrement 1 r)"
  by (simp add: floor_at_zero_def decrement_def)

lemma decreaseCartItem_step:
  "decreaseCartItem st input = Inr (st', c) \<Longrightarrow>
     carts st' = carts st \<and> list_all2 floor_at_zero (cartItems st) (cartItems st')"
  by (auto simp: decreaseCartItem_def cart_update_def items_updateMany_def Let_def
      list_all2_map2 floor_at_zero_refl floor_at_zero_decrement
      intro!: list_all2_refl split: if_splits)

lemma decreaseCartItem_calls_floor:
  "carts (decreaseCartItem_calls st inputs) = carts st
   \<and> list_all2 floor_at_zero (cartItems st) (cartItems (decreaseCartItem_calls st inputs))"
  unfolding decreaseCartItem_calls_def
proof (induction inputs arbitrary: st)
  case Nil
  show ?case by (simp add: list_all2_refl floor_at_zero_refl)
next
  case (Cons input inputs)
  let ?next = "case decreaseCartItem st input of Inl e \<Rightarrow> st | Inr (s', c) \<Rightarrow> s'"
  have step: "carts ?next = carts st \<and> list_all2 floor_at_zero (cartItems st) (cartItems ?next)"
    by (auto simp: list_all2_refl floor_at_zero_refl split: sum.splits
        dest: decreaseCartItem_step)
  from step Cons.IH [of ?next] show ?case
    by (auto elim: list_all2_trans [rotated] intro: floor_at_zero_trans)
qed

section \<open>Lemmas on numbers\<close>

lemma round_double_exact: "\<bar>n\<bar> \<le> 2 ^ 53 \<Longrightarrow> round_double n = Num n"
  by (simp add: round_double_def Let_def nat_le_iff)

lemma foldl_number_exact:
  "\<bar>a\<bar> + (\<Sum>x\<leftarrow>xs. \<bar>item_price x * item_quantity x\<bar>) \<le> 2 ^ 53 \<Longrightarrow>
     foldl (\<lambda>acc item. plus_number acc (times_number (item_price item) (item_quantity item)))
       (Num a) xs
     = Num (a + (\<Sum>x\<leftarrow>xs. item_price x * item_quantity x))"
proof (induction xs arbitrary: a)
  case Nil
  show ?case by simp
next
  case (Cons x xs)
  let ?p = "item_price x * item_quantity x"
  let ?rest = "\<Sum>y\<leftarrow>xs. \<bar>item_price y * item_quantity y\<bar>"
  have rest: "0 \<le> ?rest"
    by (rule sum_list_nonneg) auto
  from Cons.prems have bound: "\<bar>a\<bar> + \<bar>?p\<bar> + ?rest \<le> 2 ^ 53"
    by simp
  with rest have p: "\<bar>?p\<bar> \<le> 2 ^ 53" and ap: "\<bar>a + ?p\<bar> \<le> 2 ^ 53"
    by linarith+
  from bound have next_bound: "\<bar>a + ?p\<bar> + ?rest \<le> 2 ^ 53"
    by linarith
  have step: "plus_number (Num a) (times_number (item_price x) (item_quantity x)) = Num (a + ?p)"
    using p ap by (simp add: plus_number_def times_number_def round_double_exact)
  show ?case
    using Cons.IH [OF next_bound] step by (simp add: add.assoc)
qed

section \<open>Lemmas on addItem\<close>

lemma addItem_quantity:
  "nullish (defaultValue 1 (in_quantity a)) 1 = (case in_quantity a of Given n \<Rightarrow> n | _ \<Rightarrow> 1)"
  by (simp add: nullish_def defaultValue_def split: arg.splits)

lemma addItem_hit:
  "(\<lambda>r. item_cartId r = c \<and> item_id r = i \<and> item_cartId r = c) =
   (\<lambda>r. item_id r = i \<and> item_cartId r = c)"
  by auto

text \<open>A call that creates the row.\<close>

lemma addItem_creates:
  assumes "find (\<lambda>r. item_id r = in_id a \<and> item_cartId r = in_cartId a) (cartItems st) = None"
  shows "\<exists>st1. addItem st a = Inr (st1, load_cart st1 (in_cartId a))
     \<and> in_cartId a \<in> set (carts st1)
     \<and> cartItems st1 = cartItems st @
         [\<lparr>item_id = in_id a, item_cartId = in_cartId a, item_name = in_name a,
           item_description = in_description a, item_image = in_image a,
           item_price = in_price a,
           item_quantity = (case in_quantity a of Given n \<Rightarrow> n | _ \<Rightarrow> 1)\<rparr>]"
  using assms
  by (simp add: addItem_def cart_upsert_nested_def items_create_def items_upsert_def Let_def
      addItem_quantity addItem_hit)

text \<open>A call that succeeds leaves the cart and a row under the key.\<close>

lemma addItem_leaves_row:
  assumes "addItem st a = Inr (st1, c1)"
  shows "in_cartId a \<in> set (carts st1)
     \<and> find (\<lambda>r. item_id r = in_id a \<and> item_cartId r = in_cartId a) (cartItems st1) \<noteq> None"
proof -
  let ?key = "\<lambda>r. item_id r = in_id a \<and> item_cartId r = in_cartId a"
  have key_inc: "?key (increment n r) = ?key r" for n r
    by (simp add: increment_def)
  show ?thesis
  proof (cases "find ?key (cartItems st) = None")
    case True
    from addItem_creates [OF True] assms
    obtain row where "in_cartId a \<in> set (carts st1)" and "cartItems st1 = cartItems st @ [row]"
      and "?key row"
      by auto
    then show ?thesis
      using find_append_hit [of ?key row "cartItems st"] by simp
  next
    case False
    then have kept: "find ?key (map (\<lambda>r. if ?key r then increment n r else r) (cartItems st)) \<noteq> None"
      for n
      using key_inc by (intro find_map_if_hit) simp_all
    from assms False kept show ?thesis
      by (auto simp: addItem_def cart_upsert_nested_def items_create_def items_upsert_def Let_def
          addItem_hit split: if_splits)
  qed
qed

text \<open>A call on a cart that holds the item: it succeeds or overflows, and writes quantities only.\<close>

lemma addItem_existing:
  assumes "in_cartId b \<in> set (carts st)"
    and "find (\<lambda>r. item_id r = in_id b \<and> item_cartId r = in_cartId b) (cartItems st) \<noteq> None"
  shows "addItem st b =
     (if find (\<lambda>r. (item_id r = in_id b \<and> item_cartId r = in_cartId b)
                  \<and> out_of_range (case in_quantity b of Given n \<Rightarrow> n | _ \<Rightarrow> 1) r)
           (cartItems st) = None
      then (let st2 = st\<lparr>cartItems :=
                  map (\<lambda>r. if item_id r = in_id b \<and> item_cartId r = in_cartId b
                        then increment (case in_quantity b of Given n \<Rightarrow> n | _ \<Rightarrow> 1) r else r)
                    (cartItems st)\<rparr>
            in Inr (st2, load_cart st2 (in_cartId b)))
      else Inl ValueOutOfRange)"
proof -
  from assms(2)
  have present: "(find (\<lambda>r. item_id r = in_id b \<and> item_cartId r = in_cartId b) (cartItems st) = None)
      = False"
    by simp
  from assms(1) show ?thesis
    by (simp add: addItem_def cart_upsert_nested_def items_upsert_def Let_def addItem_quantity
        addItem_hit present conj_assoc cong: if_cong)
qed

section \<open>Adding an item twice\<close>

text \<open>
  Claim C1, as amended. Take two calls of \<^verbatim>\<open>addItem\<close> with the same cart id and item
  id, the first of which creates the item, and the quantities they supply (1 when the
  field is left out or \<^verbatim>\<open>null\<close>). When the two quantities sum to a 32-bit \<^verbatim>\<open>Int\<close>, both
  calls succeed, the one row under the key holds the first call's name, description, image
  and price, its quantity is that sum, and the cart returned by the second call shows the
  row. When the first quantity is a 32-bit \<^verbatim>\<open>Int\<close> and the sum is not, the first call
  succeeds and the second fails with the out-of-range error. On any store, when both calls
  succeed the second changes nothing of the rows under the key but their quantity, to
  which it adds the quantity it supplies, whatever name, description, image and price it
  carries.
\<close>

theorem addItem_twice:
  assumes same: "in_cartId b = in_cartId a" "in_id b = in_id a"
  shows
    "(find (\<lambda>r. item_id r = in_id a \<and> item_cartId r = in_cartId a) (cartItems st) = None
      \<and> int32 ((case in_quantity a of Given n \<Rightarrow> n | _ \<Rightarrow> 1)
               + (case in_quantity b of Given n \<Rightarrow> n | _ \<Rightarrow> 1)) \<longrightarrow>
      (\<exists>st1 c1 st2 c2. addItem st a = Inr (st1, c1) \<and> addItem st1 b = Inr (st2, c2)
         \<and> filter (\<lambda>r. item_id r = in_id a \<and> item_cartId r = in_cartId a) (cartItems st2) =
             [\<lparr>item_id = in_id a, item_cartId = in_cartId a, item_name = in_name a,
               item_description = in_description a, item_image = in_image a,
               item_price = in_price a,
               item_quantity = (case in_quantity a of Given n \<Rightarrow> n | _ \<Rightarrow> 1)
                             + (case in_quantity b of Given n \<Rightarrow> n | _ \<Rightarrow> 1)\<rparr>]
         \<and> cart_id c2 = in_cartId a
         \<and> filter (\<lambda>r. item_id r = in_id a) (cart_items c2) =
             filter (\<lambda>r. item_id r = in_id a \<and> item_cartId r = in_cartId a) (cartItems st2)))
     \<and> (find (\<lambda>r. item_id r = in_id a \<and> item_cartId r = in_cartId a) (cartItems st) = None
      \<and> int32 (case in_quantity a of Given n \<Rightarrow> n | _ \<Rightarrow> 1)
      \<and> \<not> int32 ((case in_quantity a of Given n \<Rightarrow> n | _ \<Rightarrow> 1)
               + (case in_quantity b of Given n \<Rightarrow> n | _ \<Rightarrow> 1)) \<longrightarrow>
      (\<exists>st1 c1. addItem st a = Inr (st1, c1) \<and> addItem st1 b = Inl ValueOutOfRange))
     \<and> (\<forall>st1 c1 st2 c2. addItem st a = Inr (st1, c1) \<and> addItem st1 b = Inr (st2, c2) \<longrightarrow>
          filter (\<lambda>r. item_id r = in_id a \<and> item_cartId r = in_cartId a) (cartItems st2) =
            map (\<lambda>r. r\<lparr>item_quantity :=
                         item_quantity r + (case in_quantity b of Given n \<Rightarrow> n | _ \<Rightarrow> 1)\<rparr>)
              (filter (\<lambda>r. item_id r = in_id a \<and> item_cartId r = in_cartId a) (cartItems st1)))"
proof -
  let ?key = "\<lambda>r. item_id r = in_id a \<and> item_cartId r = in_cartId a"
  let ?qa = "case in_quantity a of Given n \<Rightarrow> n | _ \<Rightarrow> (1::int)"
  let ?qb = "case in_quantity b of Given n \<Rightarrow> n | _ \<Rightarrow> (1::int)"
  let ?row = "\<lparr>item_id = in_id a, item_cartId = in_cartId a, item_name = in_name a,
           item_description = in_description a, item_image = in_image a,
           item_price = in_price a, item_quantity = ?qa\<rparr>"
  let ?over = "\<lambda>r. ?key r \<and> out_of_range ?qb r"
  have key_inc: "?key (increment n r) = ?key r" for n r
    by (simp add: increment_def)
  have inc: "increment n = (\<lambda>r. r\<lparr>item_quantity := item_quantity r + n\<rparr>)" for n
    by (rule ext) (simp add: increment_def)
  have second: "addItem st1 b =
      (if find ?over (cartItems st1) = None
       then (let st2 = st1\<lparr>cartItems :=
                   map (\<lambda>r. if ?key r then increment ?qb r else r) (cartItems st1)\<rparr>
             in Inr (st2, load_cart st2 (in_cartId a)))
       else Inl ValueOutOfRange)"
    if "in_cartId a \<in> set (carts st1)" and "find ?key (cartItems st1) \<noteq> None" for st1
    using addItem_existing [of b st1] that by (simp add: same)
  have fresh: "\<exists>st1 c1 st2 c2. addItem st a = Inr (st1, c1) \<and> addItem st1 b = Inr (st2, c2)
         \<and> filter ?key (cartItems st2) = [?row\<lparr>item_quantity := ?qa + ?qb\<rparr>]
         \<and> cart_id c2 = in_cartId a
         \<and> filter (\<lambda>r. item_id r = in_id a) (cart_items c2) = filter ?key (cartItems st2)"
    if absent: "find ?key (cartItems st) = None" and range: "int32 (?qa + ?qb)"
  proof -
    from addItem_creates [OF absent] obtain st1
      where first: "addItem st a = Inr (st1, load_cart st1 (in_cartId a))"
        and carts1: "in_cartId a \<in> set (carts st1)"
        and items1: "cartItems st1 = cartItems st @ [?row]"
      by blast
    have present1: "find ?key (cartItems st1) \<noteq> None"
      unfolding items1 by (rule find_append_hit) simp
    have no_over: "find ?over (cartItems st1) = None"
      using absent range unfolding items1
      by (auto simp: find_None_iff out_of_range_def)
    let ?st2 = "st1\<lparr>cartItems := map (\<lambda>r. if ?key r then increment ?qb r else r) (cartItems st1)\<rparr>"
    have call2: "addItem st1 b = Inr (?st2, load_cart ?st2 (in_cartId a))"
      using second [OF carts1 present1] no_over by (simp add: Let_def)
    have "map (\<lambda>r. if ?key r then increment ?qb r else r) (cartItems st) = cartItems st"
      using absent by (rule find_None_map_if)
    then have items2: "cartItems ?st2 = cartItems st @ [increment ?qb ?row]"
      by (simp add: items1)
    have rows: "filter ?key (cartItems ?st2) = [?row\<lparr>item_quantity := ?qa + ?qb\<rparr>]"
      unfolding items2 using find_None_filter [OF absent] by (simp add: increment_def)
    have view: "filter (\<lambda>r. item_id r = in_id a) (cart_items (load_cart ?st2 (in_cartId a))) =
        filter ?key (cartItems ?st2)"
      by (simp add: load_cart_def conj_commute)
    have ident: "cart_id (load_cart ?st2 (in_cartId a)) = in_cartId a"
      by (simp add: load_cart_def)
    from first call2 rows view ident show ?thesis
      by blast
  qed
  have overflow: "\<exists>st1 c1. addItem st a = Inr (st1, c1) \<and> addItem st1 b = Inl ValueOutOfRange"
    if absent: "find ?key (cartItems st) = None" and fits: "int32 ?qa"
      and range: "\<not> int32 (?qa + ?qb)"
  proof -
    from addItem_creates [OF absent] obtain st1
      where first: "addItem st a = Inr (st1, load_cart st1 (in_cartId a))"
        and carts1: "in_cartId a \<in> set (carts st1)"
        and items1: "cartItems st1 = cartItems st @ [?row]"
      by blast
    have present1: "find ?key (cartItems st1) \<noteq> None"
      unfolding items1 by (rule find_append_hit) simp
    have over: "find ?over (cartItems st1) \<noteq> None"
      unfolding items1 using fits range
      by (intro find_append_hit) (simp add: out_of_range_def)
    from over have "(find ?over (cartItems st1) = None) = False"
      by simp
    then have "addItem st1 b = Inl ValueOutOfRange"
      unfolding second [OF carts1 present1] by (simp only: if_False)
    with first show ?thesis
      by blast
  qed
  have merge: "filter ?key (cartItems st2) = map (increment ?qb) (filter ?key (cartItems st1))"
    if first: "addItem st a = Inr (st1, c1)" and call2: "addItem st1 b = Inr (st2, c2)"
    for st1 c1 st2 c2
  proof -
    from addItem_leaves_row [OF first]
    have carts1: "in_cartId a \<in> set (carts st1)" and present1: "find ?key (cartItems st1) \<noteq> None"
      by simp_all
    from second [OF carts1 present1] call2
    have "cartItems st2 = map (\<lambda>r. if ?key r then increment ?qb r else r) (cartItems st1)"
      by (auto simp: Let_def split: if_splits)
    then show ?thesis
      using filter_map_if [of ?key "increment ?qb" "cartItems st1"] key_inc by simp
  qed
  from fresh have part1: "find ?key (cartItems st) = None \<and> int32 (?qa + ?qb) \<longrightarrow>
      (\<exists>st1 c1 st2 c2. addItem st a = Inr (st1, c1) \<and> addItem st1 b = Inr (st2, c2)
         \<and> filter ?key (cartItems st2) = [?row\<lparr>item_quantity := ?qa + ?qb\<rparr>]
         \<and> cart_id c2 = in_cartId a
         \<and> filter (\<lambda>r. item_id r = in_id a) (cart_items c2) = filter ?key (cartItems st2))"
    by blast
  from overflow have part2: "find ?key (cartItems st) = None \<and> int32 ?qa \<and> \<not> int32 (?qa + ?qb) \<longrightarrow>
      (\<exists>st1 c1. addItem st a = Inr (st1, c1) \<and> addItem st1 b = Inl ValueOutOfRange)"
    by blast
  from merge have part3: "\<forall>st1 c1 st2 c2.
      addItem st a = Inr (st1, c1) \<and> addItem st1 b = Inr (st2, c2) \<longrightarrow>
      filter ?key (cartItems st2) =
        map (\<lambda>r. r\<lparr>item_quantity := item_quantity r + ?qb\<rparr>) (filter ?key (cartItems st1))"
    unfolding inc by blast
  from part1 part2 part3 show ?thesis
    by simp
qed

theorem addItem_twice_witness:
  "addItem \<lparr>carts = [], cartItems = []\<rparr>
      \<lparr>in_cartId = ''c1'', in_id = ''i1'', in_name = ''Mug'', in_description = None,
       in_image = None, in_price = 500, in_quantity = Given 2\<rparr> =
     Inr (\<lparr>carts = [''c1''], cartItems = [example_item ''i1'' ''c1'' 2]\<rparr>,
          \<lparr>cart_id = ''c1'', cart_items = [example_item ''i1'' ''c1'' 2]\<rparr>)
   \<and> addItem \<lparr>carts = [''c1''], cartItems = [example_item ''i1'' ''c1'' 2]\<rparr>
      \<lparr>in_cartId = ''c1'', in_id = ''i1'', in_name = ''Cup'', in_description = Some ''New'',
       in_image = Some ''https://img/cup.png'', in_price = 900, in_quantity = Given 3\<rparr> =
     Inr (\<lparr>carts = [''c1''], cartItems = [example_item ''i1'' ''c1'' 5]\<rparr>,
          \<lparr>cart_id = ''c1'', cart_items = [example_item ''i1'' ''c1'' 5]\<rparr>)
   \<and> find (\<lambda>r. item_id r = ''i1'' \<and> item_cartId r = ''c1'')
        (cartItems \<lparr>carts = [], cartItems = []\<rparr>) = None
   \<and> int32 (2 + 3)
   \<and> addItem \<lparr>carts = [''c1''], cartItems = [example_item ''i1'' ''c1'' 2]\<rparr>
      \<lparr>in_cartId = ''c1'', in_id = ''i1'', in_name = ''Cup'', in_description = Some ''New'',
       in_image = Some ''https://img/cup.png'', in_price = 900, in_quantity = Given 2147483646\<rparr> =
     Inl ValueOutOfRange
   \<and> int32 2 \<and> \<not> int32 (2 + 2147483646)"
  using addItem_twice
    [of "\<lparr>in_cartId = ''c1'', in_id = ''i1'', in_name = ''Cup'', in_description = Some ''New'',
          in_image = Some ''https://img/cup.png'', in_price = 900, in_quantity = Given 3\<rparr>"
        "\<lparr>in_cartId = ''c1'', in_id = ''i1'', in_name = ''Mug'', in_description = None,
          in_image = None, in_price = 500, in_quantity = Given 2\<rparr>"
        "\<lparr>carts = [], cartItems = []\<rparr>"]
    addItem_twice
    [of "\<lparr>in_cartId = ''c1'', in_id = ''i1'', in_name = ''Cup'', in_description = Some ''New'',
          in_image = Some ''https://img/cup.png'', in_price = 900, in_quantity = Given 2147483646\<rparr>"
        "\<lparr>in_cartId = ''c1'', in_id = ''i1'', in_name = ''Mug'', in_description = None,
          in_image = None, in_price = 500, in_quantity = Given 2\<rparr>"
        "\<lparr>carts = [], cartItems = []\<rparr>"]
  by (simp add: addItem_def cart_upsert_nested_def items_create_def items_upsert_def
      load_cart_def nullish_def defaultValue_def increment_def out_of_range_def int32_def
      example_item_def Let_def)

text \<open>
  Claim C1 as stated fails where the sum leaves the 32-bit range: after a first call with
  quantity 2147483647, a second call with quantity 1 fails and the quantity is not the sum.
\<close>

theorem addItem_twice_overflows:
  "addItem \<lparr>carts = [], cartItems = []\<rparr>
      \<lparr>in_cartId = ''c1'', in_id = ''i1'', in_name = ''Mug'', in_description = None,
       in_image = None, in_price = 500, in_quantity = Given 2147483647\<rparr> =
     Inr (\<lparr>carts = [''c1''], cartItems = [example_item ''i1'' ''c1'' 2147483647]\<rparr>,
          \<lparr>cart_id = ''c1'', cart_items = [example_item ''i1'' ''c1'' 2147483647]\<rparr>)
   \<and> addItem \<lparr>carts = [''c1''], cartItems = [example_item ''i1'' ''c1'' 2147483647]\<rparr>
      \<lparr>in_cartId = ''c1'', in_id = ''i1'', in_name = ''Mug'', in_description = None,
       in_image = None, in_price = 500, in_quantity = Given 1\<rparr> =
     Inl ValueOutOfRange"
  by (simp add: addItem_def cart_upsert_nested_def items_create_def items_upsert_def
      load_cart_def nullish_def defaultValue_def increment_def out_of_range_def int32_def
      example_item_def Let_def)

section \<open>Checkout validation\<close>

text \<open>
  Claim C2. \<^verbatim>\<open>createCheckoutSession\<close> fails with "Invalid cart" when no cart has the
  given id and with "Cart is empty" when the cart has no items, and in both cases no
  request reaches the payment gateway; a request reaches the gateway only for a cart
  that exists and has an item.
\<close>

theorem checkout_fails_before_gateway:
  "(cartId \<notin> set (carts st) \<longrightarrow>
      createCheckoutSession stripe_create origin st cartId =
        (Inl (GraphQLYogaError ''Invalid cart''), []))
   \<and> (cartId \<in> set (carts st) \<and> filter (\<lambda>r. item_cartId r = cartId) (cartItems st) = [] \<longrightarrow>
      createCheckoutSession stripe_create origin st cartId =
        (Inl (GraphQLYogaError ''Cart is empty''), []))
   \<and> (snd (createCheckoutSession stripe_create origin st cartId) \<noteq> [] \<longrightarrow>
      cartId \<in> set (carts st) \<and> filter (\<lambda>r. item_cartId r = cartId) (cartItems st) \<noteq> [])"
  by (auto simp: createCheckoutSession_def cart_findUnique_def load_cart_def Let_def split: sum.splits)

theorem checkout_fails_before_gateway_witness:
  "createCheckoutSession example_gateway ''https://shop'' example_store ''zz'' =
     (Inl (GraphQLYogaError ''Invalid cart''), [])
   \<and> ''zz'' \<notin> set (carts example_store)
   \<and> createCheckoutSession example_gateway ''https://shop'' example_store ''c0'' =
     (Inl (GraphQLYogaError ''Cart is empty''), [])
   \<and> ''c0'' \<in> set (carts example_store)
   \<and> filter (\<lambda>r. item_cartId r = ''c0'') (cartItems example_store) = []
   \<and> snd (createCheckoutSession example_gateway ''https://shop'' example_store ''c1'') \<noteq> []
   \<and> ''c1'' \<in> set (carts example_store)"
  using checkout_fails_before_gateway [of "''zz''" example_store example_gateway "''https://shop''"]
    checkout_fails_before_gateway [of "''c0''" example_store example_gateway "''https://shop''"]
    checkout_fails_before_gateway [of "''c1''" example_store example_gateway "''https://shop''"]
  by (simp add: createCheckoutSession_def cart_findUnique_def load_cart_def example_store_def
      example_item_def example_gateway_def Let_def)

section \<open>Decrementing never goes below zero\<close>

text \<open>
  Claim C3. After any run of \<^verbatim>\<open>decreaseCartItem\<close> calls the store has the same carts
  and the same rows in the same places; a row differs from what it was at most in its
  quantity, which has not grown; a quantity that was at least 0 is still at least 0; and a
  row whose quantity was 0 or less is untouched, so an item at 0 stays at 0 and is
  not deleted.
\<close>

theorem decreaseCartItem_never_negative:
  "carts (decreaseCartItem_calls st inputs) = carts st
   \<and> length (cartItems (decreaseCartItem_calls st inputs)) = length (cartItems st)
   \<and> (\<forall>k < length (cartItems st).
        (let r = cartItems st ! k; r' = cartItems (decreaseCartItem_calls st inputs) ! k
         in r' = r\<lparr>item_quantity := item_quantity r'\<rparr>
            \<and> item_quantity r' \<le> item_quantity r
            \<and> (0 \<le> item_quantity r \<longrightarrow> 0 \<le> item_quantity r')
            \<and> (item_quantity r \<le> 0 \<longrightarrow> r' = r)))"
  using decreaseCartItem_calls_floor [of st inputs]
  by (simp add: list_all2_conv_all_nth floor_at_zero_def Let_def)

theorem decreaseCartItem_never_negative_witness:
  "decreaseCartItem_calls \<lparr>carts = [''a''], cartItems = [example_item ''a'' ''a'' 1]\<rparr>
      [\<lparr>ref_cartId = ''a'', ref_id = ''a''\<rparr>, \<lparr>ref_cartId = ''a'', ref_id = ''a''\<rparr>,
       \<lparr>ref_cartId = ''a'', ref_id = ''a''\<rparr>] =
     \<lparr>carts = [''a''], cartItems = [example_item ''a'' ''a'' 0]\<rparr>
   \<and> (0::int) \<le> item_quantity (example_item ''a'' ''a'' 1)
   \<and> 0 \<le> item_quantity (cartItems (decreaseCartItem_calls
        \<lparr>carts = [''a''], cartItems = [example_item ''a'' ''a'' 1]\<rparr>
        [\<lparr>ref_cartId = ''a'', ref_id = ''a''\<rparr>, \<lparr>ref_cartId = ''a'', ref_id = ''a''\<rparr>,
         \<lparr>ref_cartId = ''a'', ref_id = ''a''\<rparr>]) ! 0)"
  using decreaseCartItem_never_negative
    [of "\<lparr>carts = [''a''], cartItems = [example_item ''a'' ''a'' 1]\<rparr>"
        "[\<lparr>ref_cartId = ''a'', ref_id = ''a''\<rparr>, \<lparr>ref_cartId = ''a'', ref_id = ''a''\<rparr>,
          \<lparr>ref_cartId = ''a'', ref_id = ''a''\<rparr>]"]
  by (simp add: decreaseCartItem_calls_def decreaseCartItem_def cart_update_def
      items_updateMany_def decrement_def example_item_def Let_def)

section \<open>The subtotal\<close>

text \<open>
  Claim C4, as amended. For a cart whose line amounts, price times quantity, sum in
  absolute value to at most \<open>2 ^ 53\<close>, the double arithmetic of the reduce is exact: the
  subtotal is the sum over the cart's items of price times quantity, and its \<^verbatim>\<open>amount\<close> is
  that sum when the sum is a 32-bit \<^verbatim>\<open>Int\<close> and an error of the \<^verbatim>\<open>Int\<close> field otherwise. A
  cart without items has amount 0. The resolver-map version computes the same number for a
  cart of the store.
\<close>

theorem subTotal_is_sum:
  "((\<Sum>item\<leftarrow>cart_items c. \<bar>item_price item * item_quantity item\<bar>) \<le> 2 ^ 53 \<longrightarrow>
      subTotal c = Num (\<Sum>item\<leftarrow>cart_items c. item_price item * item_quantity item)
      \<and> Money_amount (subTotal c) =
          (if int32 (\<Sum>item\<leftarrow>cart_items c. item_price item * item_quantity item)
           then Inr (\<Sum>item\<leftarrow>cart_items c. item_price item * item_quantity item)
           else Inl (GraphQLError ''Int cannot represent non 32-bit signed integer value'')))
   \<and> Money_amount (subTotal (c\<lparr>cart_items := []\<rparr>)) = Inr 0
   \<and> (ident \<in> set (carts st)
        \<and> (\<Sum>item\<leftarrow>filter (\<lambda>r. item_cartId r = ident) (cartItems st).
              \<bar>item_price item * item_quantity item\<bar>) \<le> 2 ^ 53 \<longrightarrow>
        (\<exists>m. subTotal_resolvers format st ident = Inr m
           \<and> amount m = Num (\<Sum>item\<leftarrow>filter (\<lambda>r. item_cartId r = ident) (cartItems st).
                                item_price item * item_quantity item)))"
proof -
  have exact: "foldl (\<lambda>acc item. plus_number acc (times_number (item_price item) (item_quantity item)))
       (Num 0) xs = Num (\<Sum>x\<leftarrow>xs. item_price x * item_quantity x)"
    if "(\<Sum>x\<leftarrow>xs. \<bar>item_price x * item_quantity x\<bar>) \<le> 2 ^ 53" for xs
    using foldl_number_exact [of 0 xs] that by simp
  have builder: "subTotal c = Num (\<Sum>item\<leftarrow>cart_items c. item_price item * item_quantity item)"
    if "(\<Sum>item\<leftarrow>cart_items c. \<bar>item_price item * item_quantity item\<bar>) \<le> 2 ^ 53"
    using exact [OF that] by (simp add: subTotal_def nullish_def)
  have empty: "Money_amount (subTotal (c\<lparr>cart_items := []\<rparr>)) = Inr 0"
    by (simp add: subTotal_def nullish_def Money_amount_def serialize_Int_def int32_def)
  have resolvers: "\<exists>m. subTotal_resolvers format st ident = Inr m
           \<and> amount m = Num (\<Sum>item\<leftarrow>filter (\<lambda>r. item_cartId r = ident) (cartItems st).
                                item_price item * item_quantity item)"
    if "ident \<in> set (carts st)"
      and "(\<Sum>item\<leftarrow>filter (\<lambda>r. item_cartId r = ident) (cartItems st).
              \<bar>item_price item * item_quantity item\<bar>) \<le> 2 ^ 53"
    using that(1) exact [OF that(2)]
    by (simp add: subTotal_resolvers_def cart_findUnique_def load_cart_def nullish_def Let_def)
  show ?thesis
    using builder empty resolvers by (simp add: Money_amount_def serialize_Int_def)
qed

theorem subTotal_is_sum_witness:
  "(\<Sum>item\<leftarrow>filter (\<lambda>r. item_cartId r = ''c1'') (cartItems example_store).
       \<bar>item_price item * item_quantity item\<bar>) \<le> 2 ^ 53
   \<and> Money_amount (subTotal \<lparr>cart_id = ''c1'',
       cart_items = filter (\<lambda>r. item_cartId r = ''c1'') (cartItems example_store)\<rparr>) = Inr 2350
   \<and> ''c1'' \<in> set (carts example_store)
   \<and> subTotal_resolvers (\<lambda>n. ''$'') example_store ''c1'' =
       Inr \<lparr>amount = Num 2350, formatted = ''$''\<rparr>
   \<and> \<not> int32 (\<Sum>item\<leftarrow>[example_item ''i1'' ''c1'' 4294968]. item_price item * item_quantity item)
   \<and> Money_amount (subTotal \<lparr>cart_id = ''c1'', cart_items = [example_item ''i1'' ''c1'' 4294968]\<rparr>) =
       Inl (GraphQLError ''Int cannot represent non 32-bit signed integer value'')"
  using subTotal_is_sum [of "\<lparr>cart_id = ''c1'',
       cart_items = filter (\<lambda>r. item_cartId r = ''c1'') (cartItems example_store)\<rparr>"
       "''c1''" example_store "\<lambda>n. ''$''"]
    subTotal_is_sum [of "\<lparr>cart_id = ''c1'', cart_items = [example_item ''i1'' ''c1'' 4294968]\<rparr>"
       "''c1''" example_store "\<lambda>n. ''$''"]
  by (simp add: int32_def example_store_def example_item_def subTotal_resolvers_def
      cart_findUnique_def load_cart_def nullish_def plus_number_def times_number_def
      round_double_def Money_amount_def serialize_Int_def Let_def)

text \<open>
  Claim C4 as stated fails on large amounts. One item of price 2147483647 and quantity
  2147483647 has the line amount 4611686014132420609; the double product is
  4611686014132420608, and the \<^verbatim>\<open>amount\<close> field is an error, since neither is a 32-bit
  \<^verbatim>\<open>Int\<close>.
\<close>

theorem subTotal_rounds_and_overflows:
  "subTotal \<lparr>cart_id = ''c1'',
             cart_items = [\<lparr>item_id = ''i1'', item_cartId = ''c1'', item_name = ''Mug'',
               item_description = None, item_image = None, item_price = 2147483647,
               item_quantity = 2147483647\<rparr>]\<rparr> = Num 4611686014132420608
   \<and> (\<Sum>item\<leftarrow>[\<lparr>item_id = ''i1'', item_cartId = ''c1'', item_name = ''Mug'',
               item_description = None, item_image = None, item_price = 2147483647,
               item_quantity = 2147483647\<rparr>]. item_price item * item_quantity item)
       = 4611686014132420609
   \<and> Money_amount (subTotal \<lparr>cart_id = ''c1'',
             cart_items = [\<lparr>item_id = ''i1'', item_cartId = ''c1'', item_name = ''Mug'',
               item_description = None, item_image = None, item_price = 2147483647,
               item_quantity = 2147483647\<rparr>]\<rparr>) =
       Inl (GraphQLError ''Int cannot represent non 32-bit signed integer value'')"
proof -
  have len: "bit_length 4611686014132420609 = 62"
    by (simp add: bit_length.simps)
  have product: "times_number 2147483647 2147483647 = Num 4611686014132420608"
    by (simp add: times_number_def round_double_def Let_def len)
  have len': "bit_length 4611686014132420608 = 62"
    by (simp add: bit_length.simps)
  have total: "plus_number (Num 0) (Num 4611686014132420608) = Num 4611686014132420608"
    by (simp add: plus_number_def round_double_def Let_def len')
  show ?thesis
    by (simp add: subTotal_def nullish_def product total Money_amount_def serialize_Int_def
        int32_def)
qed

section \<open>Removing an item\<close>

text \<open>
  Claim C5 fails on the code. \<^verbatim>\<open>removeItem\<close> selects the cart by the item id of the
  input (\<^verbatim>\<open>where: { id: input.id }\<close>), not by \<^verbatim>\<open>cartId\<close>: with item \<^verbatim>\<open>i1\<close> in cart
  \<^verbatim>\<open>c1\<close> the call fails with the record-not-found error and deletes nothing, and when a
  cart named \<^verbatim>\<open>i1\<close> exists as well, the row of that other cart is deleted and that other
  cart is returned.
\<close>

theorem removeItem_selects_cart_by_item_id:
  "removeItem \<lparr>carts = [''c1''], cartItems = [example_item ''i1'' ''c1'' 2]\<rparr>
      \<lparr>ref_cartId = ''c1'', ref_id = ''i1''\<rparr> = Inl RecordNotFound
   \<and> removeItem \<lparr>carts = [''c1'', ''i1''],
                 cartItems = [example_item ''i1'' ''c1'' 2, example_item ''i1'' ''i1'' 5]\<rparr>
      \<lparr>ref_cartId = ''c1'', ref_id = ''i1''\<rparr> =
     Inr (\<lparr>carts = [''c1'', ''i1''], cartItems = [example_item ''i1'' ''c1'' 2]\<rparr>,
          \<lparr>cart_id = ''i1'', cart_items = []\<rparr>)"
  by (simp add: removeItem_def cart_update_def items_deleteMany_def load_cart_def
      example_item_def Let_def)

text \<open>
  On a store without carts the call fails as well: \<^verbatim>\<open>prisma.cart.update\<close> throws on a
  cart that does not exist.
\<close>

theorem removeItem_missing_cart_raises:
  "removeItem \<lparr>carts = [], cartItems = []\<rparr> \<lparr>ref_cartId = ''c1'', ref_id = ''i1''\<rparr> =
     Inl RecordNotFound"
  by (simp add: removeItem_def cart_update_def)

section \<open>Increasing an item\<close>

text \<open>
  Claim C6 fails on the code. \<^verbatim>\<open>increaseCartItem\<close> selects the cart by the item id of the
  input: with item \<^verbatim>\<open>i1\<close> at quantity 2 in cart \<^verbatim>\<open>c1\<close> the call fails with the
  record-not-found error and the quantity stays 2, and when a cart named \<^verbatim>\<open>i1\<close> exists
  as well, the item of that other cart is incremented and that other cart is returned.
\<close>

theorem increaseCartItem_selects_cart_by_item_id:
  "increaseCartItem \<lparr>carts = [''c1''], cartItems = [example_item ''i1'' ''c1'' 2]\<rparr>
      \<lparr>ref_cartId = ''c1'', ref_id = ''i1''\<rparr> = Inl RecordNotFound
   \<and> increaseCartItem \<lparr>carts = [''c1'', ''i1''],
                 cartItems = [example_item ''i1'' ''c1'' 2, example_item ''i1'' ''i1'' 5]\<rparr>
      \<lparr>ref_cartId = ''c1'', ref_id = ''i1''\<rparr> =
     Inr (\<lparr>carts = [''c1'', ''i1''],
           cartItems = [example_item ''i1'' ''c1'' 2, example_item ''i1'' ''i1'' 6]\<rparr>,
          \<lparr>cart_id = ''i1'', cart_items = [example_item ''i1'' ''i1'' 6]\<rparr>)"
  by (simp add: increaseCartItem_def cart_update_def items_updateMany_def load_cart_def
      example_item_def increment_def Let_def)

section \<open>The item count\<close>

text \<open>
  Claim C7 fails on the code. The callback computes \<^verbatim>\<open>(total + item.quantity) || 1\<close>,
  so 1 replaces a running total of 0, not an item's quantity of 0: items of quantities 2
  and 0 count 2 (not 3), and two items of quantity 0 count 1 (not 2). Both versions of
  \<^verbatim>\<open>totalItems\<close> agree on this.
\<close>

theorem totalItems_restarts_at_one:
  "totalItems \<lparr>cart_id = ''c1'',
               cart_items = [example_item ''i1'' ''c1'' 2, example_item ''i2'' ''c1'' 0]\<rparr> = 2
   \<and> totalItems \<lparr>cart_id = ''c1'',
               cart_items = [example_item ''i1'' ''c1'' 0, example_item ''i2'' ''c1'' 0]\<rparr> = 1
   \<and> totalItems_resolvers
        \<lparr>carts = [''c1''],
         cartItems = [example_item ''i1'' ''c1'' 2, example_item ''i2'' ''c1'' 0]\<rparr> ''c1'' = Inr 2"
  by (simp add: totalItems_def totalItems_resolvers_def cart_findUnique_def load_cart_def
      or_number_def example_item_def)

section \<open>Reading a cart\<close>

text \<open>
  Claim C8. The \<^verbatim>\<open>cart\<close> query always succeeds and returns the cart with the given id
  and its items, and afterwards the cart is in the store. An existing cart leaves the
  store unchanged; a missing one is appended to the cart table, no item row changes, and
  (every item row belonging to a cart of the table) the cart returned has no items.
\<close>

theorem cart_find_or_create:
  "\<exists>st' c. cart st ident = Inr (st', c) \<and> cart_id c = ident \<and> ident \<in> set (carts st')
     \<and> cartItems st' = cartItems st
     \<and> cart_items c = filter (\<lambda>r. item_cartId r = ident) (cartItems st)
     \<and> (ident \<in> set (carts st) \<longrightarrow> st' = st)
     \<and> (ident \<notin> set (carts st) \<longrightarrow> carts st' = carts st @ [ident])
     \<and> (ident \<notin> set (carts st) \<and> items_have_carts st \<longrightarrow> cart_items c = [])"
  by (auto simp: cart_def cart_upsert_def load_cart_def items_have_carts_def list_all_iff Let_def filter_empty_conv)

theorem cart_find_or_create_witness:
  "cart example_store ''c9'' =
     Inr (example_store\<lparr>carts := [''c0'', ''c1'', ''c9'']\<rparr>, \<lparr>cart_id = ''c9'', cart_items = []\<rparr>)
   \<and> ''c9'' \<notin> set (carts example_store)
   \<and> items_have_carts example_store
   \<and> cart example_store ''c0'' = Inr (example_store, \<lparr>cart_id = ''c0'', cart_items = []\<rparr>)
   \<and> ''c0'' \<in> set (carts example_store)"
  using cart_find_or_create [of example_store "''c9''"] cart_find_or_create [of example_store "''c0''"]
  by (simp add: cart_def cart_upsert_def load_cart_def items_have_carts_def example_store_def
      example_item_def Let_def)

section \<open>Payment lines\<close>

text \<open>
  Claim C9. For a cart that exists and has items, \<^verbatim>\<open>createCheckoutSession\<close> sends one
  request to the gateway, with one line per cart item, in order: the item's quantity, its
  price as unit amount, currency USD, its name, its description when it has one and none
  otherwise, and the list holding its image when it has one and the empty list otherwise.
  An item has a description or an image when the field is a non-empty string: the source
  tests the field's truthiness, so \<^verbatim>\<open>null\<close> and the empty string both count as absent.
\<close>

theorem line_items_projection:
  assumes "cartId \<in> set (carts st)"
    and "filter (\<lambda>r. item_cartId r = cartId) (cartItems st) \<noteq> []"
  shows "\<exists>params. snd (createCheckoutSession stripe_create origin st cartId) = [params]
     \<and> length (line_items params) = length (filter (\<lambda>r. item_cartId r = cartId) (cartItems st))
     \<and> (\<forall>k < length (line_items params).
          (let item = filter (\<lambda>r. item_cartId r = cartId) (cartItems st) ! k;
               line = line_items params ! k;
               product = product_data (price_data line)
           in quantity line = item_quantity item
              \<and> unit_amount (price_data line) = item_price item
              \<and> currency (price_data line) = ''USD''
              \<and> pd_name product = item_name item
              \<and> pd_description product =
                  (case item_description item of None \<Rightarrow> None
                   | Some d \<Rightarrow> if d = [] then None else Some d)
              \<and> pd_images product =
                  (case item_image item of None \<Rightarrow> []
                   | Some i \<Rightarrow> if i = [] then [] else [i])))"
  using assms
  by (auto simp: createCheckoutSession_def cart_findUnique_def load_cart_def Let_def line_item_def
      currencyCode_def truthy_def split: sum.splits option.splits)

theorem line_items_projection_witness:
  "''c1'' \<in> set (carts example_store)
   \<and> filter (\<lambda>r. item_cartId r = ''c1'') (cartItems example_store) \<noteq> []
   \<and> map line_items (snd (createCheckoutSession example_gateway ''https://shop'' example_store ''c1'')) =
       [[\<lparr>quantity = 2,
          price_data = \<lparr>currency = ''USD'', unit_amount = 500,
            product_data = \<lparr>pd_name = ''Mug'', pd_description = None, pd_images = []\<rparr>\<rparr>\<rparr>,
         \<lparr>quantity = 3,
          price_data = \<lparr>currency = ''USD'', unit_amount = 150,
            product_data = \<lparr>pd_name = ''Pen'', pd_description = Some ''Blue ink'',
              pd_images = [''https://img/pen.png'']\<rparr>\<rparr>\<rparr>,
         \<lparr>quantity = 1,
          price_data = \<lparr>currency = ''USD'', unit_amount = 900,
            product_data = \<lparr>pd_name = ''Cap'', pd_description = None, pd_images = []\<rparr>\<rparr>\<rparr>]]"
  using line_items_projection [of "''c1''" example_store example_gateway "''https://shop''"]
  by (simp add: createCheckoutSession_def cart_findUnique_def load_cart_def example_store_def
      example_item_def example_gateway_def line_item_def currencyCode_def truthy_def Let_def)

section \<open>The two versions of addItem\<close>

text \<open>
  Claim C10, as amended. On a store in which every item row belongs to a cart of the cart
  table, the resolver-map version and the schema-builder version of \<^verbatim>\<open>addItem\<close> return
  the same result and leave the same store exactly when the input's quantity is not 0:
  they agree when it is left out, \<^verbatim>\<open>null\<close> or a non-zero number, and differ at 0.
\<close>

theorem addItem_versions_agree:
  assumes "items_have_carts st"
  shows "addItem_resolvers st input = addItem st input \<longleftrightarrow> in_quantity input \<noteq> Given 0"
proof -
  let ?key = "\<lambda>r. item_id r = in_id input \<and> item_cartId r = in_cartId input"
  let ?row = "\<lambda>q. \<lparr>item_id = in_id input, item_cartId = in_cartId input, item_name = in_name input,
           item_description = in_description input, item_image = in_image input,
           item_price = in_price input, item_quantity = q\<rparr>"
  have hit: "(\<lambda>r. item_cartId r = in_cartId input \<and> item_id r = in_id input
                   \<and> item_cartId r = in_cartId input) = ?key"
    by auto
  have orphan: "find ?key (cartItems st) = None" if "in_cartId input \<notin> set (carts st)"
    using assms that by (auto simp: items_have_carts_def list_all_iff find_None_iff)
  have resolvers: "addItem_resolvers st input =
      (case cartItem_upsert (in_id input, in_cartId input)
              (?row (or_number (as_sent (in_quantity input)) 1))
              (or_number (as_sent (in_quantity input)) 1) st of
         Inl e \<Rightarrow> Inl e
       | Inr st' \<Rightarrow> findOrCreateCart st' (in_cartId input))"
    by (simp add: addItem_resolvers_def Let_def)
  have builder: "addItem st input =
      (case (if in_cartId input \<in> set (carts st)
             then cartItem_upsert (in_id input, in_cartId input)
                    (?row (nullish (defaultValue 1 (in_quantity input)) 1))
                    (nullish (defaultValue 1 (in_quantity input)) 1) st
             else items_create (?row (nullish (defaultValue 1 (in_quantity input)) 1))
                    (st\<lparr>carts := carts st @ [in_cartId input]\<rparr>)) of
         Inl e \<Rightarrow> Inl e
       | Inr st' \<Rightarrow> Inr (st', load_cart st' (in_cartId input)))"
    by (simp add: addItem_def cart_upsert_nested_def items_upsert_def cartItem_upsert_def
        Let_def hit)
  have upsert: "cartItem_upsert (in_id input, in_cartId input) (?row q) n st =
      (if find ?key (cartItems st) = None
       then Inr (st\<lparr>cartItems := cartItems st @ [?row q]\<rparr>)
       else if find (\<lambda>r. ?key r \<and> out_of_range n r) (cartItems st) = None
       then Inr (st\<lparr>cartItems := map (\<lambda>r. if ?key r then increment n r else r) (cartItems st)\<rparr>)
       else Inl ValueOutOfRange)" for q n
    by (simp add: cartItem_upsert_def items_create_def Let_def)
  show ?thesis
  proof (cases "in_quantity input = Given 0")
    case True
    have q1: "or_number (as_sent (in_quantity input)) 1 = 1"
      and q0: "nullish (defaultValue 1 (in_quantity input)) 1 = 0"
      using True by (simp_all add: or_number_def as_sent_def nullish_def defaultValue_def)
    have never: "find (\<lambda>r. ?key r \<and> out_of_range 0 r) (cartItems st) = None"
      by (auto simp: find_None_iff out_of_range_def)
    have inc: "increment 1 r \<noteq> increment 0 r" for r
      by (cases r) (simp add: increment_def)
    have "addItem_resolvers st input \<noteq> addItem st input"
    proof (cases "in_cartId input \<in> set (carts st)")
      case present: True
      show ?thesis
      proof (cases "find ?key (cartItems st) = None")
        case True
        with present show ?thesis
          unfolding resolvers builder q1 q0 upsert
          by (auto simp: findOrCreateCart_def dest!: arg_cong [where f = cartItems])
      next
        case False
        then obtain r where r: "r \<in> set (cartItems st)" "?key r"
          by (auto simp: find_None_iff)
        then have differ: "map (\<lambda>r. if ?key r then increment 1 r else r) (cartItems st) \<noteq>
            map (\<lambda>r. if ?key r then increment 0 r else r) (cartItems st)"
          using inc by (auto simp: map_eq_conv)
        from present False differ show ?thesis
          unfolding resolvers builder q1 q0 upsert never
          by (auto simp: findOrCreateCart_def split: if_splits
              dest!: arg_cong [where f = cartItems])
      qed
    next
      case absent: False
      from orphan [OF absent] absent show ?thesis
        unfolding resolvers builder q1 q0 upsert
        by (auto simp: items_create_def findOrCreateCart_def Let_def
            dest!: arg_cong [where f = cartItems])
    qed
    with True show ?thesis by simp
  next
    case False
    have q: "or_number (as_sent (in_quantity input)) 1 =
        nullish (defaultValue 1 (in_quantity input)) 1"
      using False
      by (simp add: or_number_def as_sent_def nullish_def defaultValue_def split: arg.splits)
    have "addItem_resolvers st input = addItem st input"
    proof (cases "in_cartId input \<in> set (carts st)")
      case present: True
      then show ?thesis
        unfolding resolvers builder q upsert
        by (simp add: findOrCreateCart_def)
    next
      case absent: False
      from orphan [OF absent] absent show ?thesis
        unfolding resolvers builder q upsert
        by (simp add: items_create_def findOrCreateCart_def load_cart_def)
    qed
    with False show ?thesis by simp
  qed
qed

theorem addItem_versions_agree_witness:
  "items_have_carts example_store
   \<and> addItem_resolvers example_store
       \<lparr>in_cartId = ''c0'', in_id = ''i1'', in_name = ''Mug'', in_description = None,
        in_image = None, in_price = 500, in_quantity = Absent\<rparr> =
     addItem example_store
       \<lparr>in_cartId = ''c0'', in_id = ''i1'', in_name = ''Mug'', in_description = None,
        in_image = None, in_price = 500, in_quantity = Absent\<rparr>
   \<and> addItem_resolvers example_store
       \<lparr>in_cartId = ''c0'', in_id = ''i1'', in_name = ''Mug'', in_description = None,
        in_image = None, in_price = 500, in_quantity = Given 0\<rparr> \<noteq>
     addItem example_store
       \<lparr>in_cartId = ''c0'', in_id = ''i1'', in_name = ''Mug'', in_description = None,
        in_image = None, in_price = 500, in_quantity = Given 0\<rparr>"
  using addItem_versions_agree [of example_store
      "\<lparr>in_cartId = ''c0'', in_id = ''i1'', in_name = ''Mug'', in_description = None,
        in_image = None, in_price = 500, in_quantity = Absent\<rparr>"]
    addItem_versions_agree [of example_store
      "\<lparr>in_cartId = ''c0'', in_id = ''i1'', in_name = ''Mug'', in_description = None,
        in_image = None, in_price = 500, in_quantity = Given 0\<rparr>"]
  by (simp add: items_have_carts_def example_store_def example_item_def)

text \<open>
  Claim C10 as stated fails at quantity 0: on a store with the cart and no items the
  resolver-map version creates the item with quantity 1 (\<^verbatim>\<open>0 || 1\<close>), the schema-builder version with quantity
  0 (\<^verbatim>\<open>0 ?? 1\<close>).
\<close>

theorem addItem_versions_differ_at_zero:
  "addItem_resolvers \<lparr>carts = [''c1''], cartItems = []\<rparr>
      \<lparr>in_cartId = ''c1'', in_id = ''i1'', in_name = ''Mug'', in_description = None,
       in_image = None, in_price = 500, in_quantity = Given 0\<rparr> =
     Inr (\<lparr>carts = [''c1''], cartItems = [example_item ''i1'' ''c1'' 1]\<rparr>,
          \<lparr>cart_id = ''c1'', cart_items = [example_item ''i1'' ''c1'' 1]\<rparr>)
   \<and> addItem \<lparr>carts = [''c1''], cartItems = []\<rparr>
      \<lparr>in_cartId = ''c1'', in_id = ''i1'', in_name = ''Mug'', in_description = None,
       in_image = None, in_price = 500, in_quantity = Given 0\<rparr> =
     Inr (\<lparr>carts = [''c1''], cartItems = [example_item ''i1'' ''c1'' 0]\<rparr>,
          \<lparr>cart_id = ''c1'', cart_items = [example_item ''i1'' ''c1'' 0]\<rparr>)"
  by (simp add: addItem_resolvers_def addItem_def cartItem_upsert_def items_upsert_def
      items_create_def cart_upsert_nested_def findOrCreateCart_def Let_def or_number_def
      as_sent_def nullish_def defaultValue_def example_item_def load_cart_def)

end
